theory Spec2Isabelle
  imports Main "HOL-Library.Word"
begin

section \<open>JavaScript strings and thrown values\<close>

text \<open>
  A JavaScript string is a sequence of 16-bit code units. The regular expressions of
  \<^verbatim>\<open>index.js\<close> carry no \<^verbatim>\<open>u\<close> flag, so they work on code units, and so does this model.
  \<open>js\<close> embeds a literal written with Isabelle characters (code units below 256).
\<close>

type_synonym jschar = "16 word"
type_synonym jsstring = "jschar list"

definition js :: "string \<Rightarrow> jsstring" where
  "js cs = map of_char cs"

text \<open>
  Anything can be thrown in JavaScript, or be the reason of a rejected promise: the two
  nullish values, a primitive such as a number or a string, or an \<^verbatim>\<open>Error\<close> object with its
  \<^verbatim>\<open>name\<close> and \<^verbatim>\<open>message\<close>.
\<close>

datatype jsval =
    Undefined
  | Null
  | NumVal int
  | StrVal jsstring
  | ErrorObj jsstring jsstring

text \<open>\<^verbatim>\<open>class PhoneNumberError extends Error\<close>: the constructor sets the message and the name.\<close>

definition PhoneNumberError :: "jsstring \<Rightarrow> jsval" where
  "PhoneNumberError message = ErrorObj (js ''PhoneNumberError'') message"


text \<open>
  Reading \<^verbatim>\<open>error.message\<close> in a template: a \<^verbatim>\<open>TypeError\<close> when \<^verbatim>\<open>error\<close> is \<^verbatim>\<open>undefined\<close> or
  \<^verbatim>\<open>null\<close>; a primitive has no such property and the template prints \<^verbatim>\<open>undefined\<close>. The
  wording of the \<^verbatim>\<open>TypeError\<close> is the engine's.
\<close>

definition TypeError :: jsval where
  "TypeError = ErrorObj (js ''TypeError'') (js ''Cannot read properties of undefined or null'')"

fun message_of :: "jsval \<Rightarrow> jsval + jsstring" where
  "message_of Undefined = Inl TypeError"
| "message_of Null = Inl TypeError"
| "message_of (NumVal n) = Inr (js ''undefined'')"
| "message_of (StrVal s) = Inr (js ''undefined'')"
| "message_of (ErrorObj name message) = Inr message"

text \<open>
  A \<^verbatim>\<open>catch\<close> block that logs \<^verbatim>\<open>error.message\<close> and throws \<^verbatim>\<open>error\<close> again: what leaves
  the block is the error, or the \<^verbatim>\<open>TypeError\<close> of the log line.
\<close>

definition rethrown :: "jsval \<Rightarrow> jsval" where
  "rethrown error = (case message_of error of Inl thrown \<Rightarrow> thrown | Inr message \<Rightarrow> error)"


section \<open>Regular expressions\<close>

text \<open>
  The fragment of the regular-expression language that \<^verbatim>\<open>index.js\<close> uses: the anchors
  \<^verbatim>\<open>^\<close> and \<^verbatim>\<open>$\<close> (no \<^verbatim>\<open>m\<close> flag: start and end of the input), a literal character, \<^verbatim>\<open>r?\<close>,
  a character class under \<^verbatim>\<open>{n,}\<close>, and concatenation. A class is a list of items:
  \<^verbatim>\<open>\d\<close>, \<^verbatim>\<open>\s\<close> or a literal.
\<close>

datatype class_item = Digit | Space | Lit jschar

text \<open>\<^verbatim>\<open>\d\<close> is \<^verbatim>\<open>[0-9]\<close>.\<close>

definition is_digit :: "jschar \<Rightarrow> bool" where
  "is_digit c = (0x30 \<le> c \<and> c \<le> 0x39)"

text \<open>
  \<^verbatim>\<open>\s\<close> is the WhiteSpace and LineTerminator code points of ECMAScript: TAB, LF, VT, FF, CR,
  SPACE, NO-BREAK SPACE, OGHAM SPACE MARK, the spaces U+2000 to U+200A, LINE SEPARATOR,
  PARAGRAPH SEPARATOR, NARROW NO-BREAK SPACE, MEDIUM MATHEMATICAL SPACE, IDEOGRAPHIC SPACE
  and the BYTE ORDER MARK.
\<close>

definition is_space :: "jschar \<Rightarrow> bool" where
  "is_space c =
     ((0x09 \<le> c \<and> c \<le> 0x0D) \<or> c = 0x20 \<or> c = 0xA0 \<or> c = 0x1680 \<or>
      (0x2000 \<le> c \<and> c \<le> 0x200A) \<or> c = 0x2028 \<or> c = 0x2029 \<or> c = 0x202F \<or>
      c = 0x205F \<or> c = 0x3000 \<or> c = 0xFEFF)"

fun item_matches :: "class_item \<Rightarrow> jschar \<Rightarrow> bool" where
  "item_matches Digit c = is_digit c"
| "item_matches Space c = is_space c"
| "item_matches (Lit l) c = (c = l)"

definition in_class :: "class_item list \<Rightarrow> jschar \<Rightarrow> bool" where
  "in_class items c = list_ex (\<lambda>it. item_matches it c) items"

datatype regex =
    Bol
  | Eol
  | Chr jschar
  | Opt regex
  | AtLeast nat "class_item list"
  | Seq regex regex

text \<open>
  A backtracking matcher: \<open>rmatch r s i\<close> lists, in the order the engine tries them, the
  indices at which a match of \<open>r\<close> that starts at index \<open>i\<close> of \<open>s\<close> can end. The
  quantifiers are greedy: \<^verbatim>\<open>r?\<close> tries \<open>r\<close> before the empty match, \<^verbatim>\<open>{n,}\<close> tries the
  longest run first and gives characters back down to \<open>n\<close>.
\<close>

fun rmatch :: "regex \<Rightarrow> jsstring \<Rightarrow> nat \<Rightarrow> nat list" where
  "rmatch Bol s i = (if i = 0 then [i] else [])"
| "rmatch Eol s i = (if i = length s then [i] else [])"
| "rmatch (Chr c) s i = (if i < length s \<and> s ! i = c then [Suc i] else [])"
| "rmatch (Opt r) s i = rmatch r s i @ [i]"
| "rmatch (AtLeast n cls) s i =
     (let m = length (takeWhile (in_class cls) (drop i s))
      in map (\<lambda>k. i + k) (rev [n..<Suc m]))"
| "rmatch (Seq a b) s i = concat (map (rmatch b s) (rmatch a s i))"

text \<open>
  \<^verbatim>\<open>RegExp.prototype.test\<close> of a regular expression without the \<^verbatim>\<open>g\<close> and \<^verbatim>\<open>y\<close> flags: a
  match is looked for at every start index, from 0 to the length of the string.
\<close>

definition RegExp_test :: "regex \<Rightarrow> jsstring \<Rightarrow> bool" where
  "RegExp_test r s = list_ex (\<lambda>i. rmatch r s i \<noteq> []) [0..<Suc (length s)]"

text \<open>
  \<^verbatim>\<open>String.prototype.replace\<close> with a global regular expression that is one character
  class: every character of the class is replaced, the others are kept.
\<close>

fun String_replace_g :: "class_item list \<Rightarrow> jsstring \<Rightarrow> jsstring \<Rightarrow> jsstring" where
  "String_replace_g cls rep [] = []"
| "String_replace_g cls rep (c # cs) =
     (if in_class cls c then rep @ String_replace_g cls rep cs
      else c # String_replace_g cls rep cs)"


section \<open>Validation\<close>

definition plus :: jschar where "plus = 0x2B"
definition hyphen :: jschar where "hyphen = 0x2D"

text \<open>\<^verbatim>\<open>/^\+?[\d\s-]{10,}$/\<close>\<close>

definition phoneRegex :: regex where
  "phoneRegex = Seq Bol (Seq (Opt (Chr plus)) (Seq (AtLeast 10 [Digit, Space, Lit hyphen]) Eol))"

text \<open>\<^verbatim>\<open>validatePhoneNumber\<close>: the thrown error is \<open>Inl\<close>, the normalized number \<open>Inr\<close>.\<close>

definition validatePhoneNumber :: "jsstring \<Rightarrow> jsval + jsstring" where
  "validatePhoneNumber phoneNumber =
     (if \<not> RegExp_test phoneRegex phoneNumber
      then Inl (PhoneNumberError (js ''Invalid phone number format''))
      else Inr (String_replace_g [Space, Lit hyphen] [] phoneNumber))"


section \<open>Events and the event history\<close>

text \<open>
  \<^verbatim>\<open>class PhoneEvent\<close>. The default of the third parameter is \<^verbatim>\<open>new Date()\<close>: the reading
  of the clock is an input of the model, a time value in milliseconds.
\<close>

record PhoneEvent =
  type :: jsstring
  phoneNumber :: jsstring
  timestamp :: int

definition PhoneEvent_new :: "jsstring \<Rightarrow> jsstring \<Rightarrow> int \<Rightarrow> PhoneEvent" where
  "PhoneEvent_new t n now = \<lparr>type = t, phoneNumber = n, timestamp = now\<rparr>"

text \<open>
  \<^verbatim>\<open>class Telephone\<close>. The numbers are a \<^verbatim>\<open>Set\<close> of strings that is never iterated. The
  observers are a \<^verbatim>\<open>Set\<close> of object references that \<^verbatim>\<open>notifyObservers\<close> iterates in
  insertion order: a list of references without repetition. The observers themselves live
  outside the registry, in a heap from references to objects, and may change between calls.
\<close>

type_synonym ref = nat

record Telephone =
  phoneNumbers :: "jsstring set"
  observers :: "ref list"
  eventHistory :: "PhoneEvent list"
  maxHistorySize :: nat

text \<open>
  \<^verbatim>\<open>constructor()\<close> declares no parameter; JavaScript ignores the arguments of a call that
  the function does not declare.
\<close>

definition Telephone_new :: "jsval list \<Rightarrow> Telephone" where
  "Telephone_new args =
     \<lparr>phoneNumbers = {}, observers = [], eventHistory = [], maxHistorySize = 100\<rparr>"

text \<open>\<^verbatim>\<open>addToHistory\<close>: \<^verbatim>\<open>push\<close>, then \<^verbatim>\<open>shift\<close> when the array has grown past the limit.\<close>

definition addToHistory :: "PhoneEvent \<Rightarrow> Telephone \<Rightarrow> Telephone" where
  "addToHistory event this =
     (let grown = eventHistory this @ [event]
      in this\<lparr>eventHistory :=
                (if length grown > maxHistorySize this then tl grown else grown)\<rparr>)"

text \<open>
  The filter of \<^verbatim>\<open>getEventHistory\<close>: each option is absent (\<open>None\<close>) or given. The type is
  a string, the dates are \<^verbatim>\<open>Date\<close> objects, compared through their time values.
\<close>

record history_filter =
  filter_type :: "jsstring option"
  startDate :: "int option"
  endDate :: "int option"

text \<open>
  The guards \<^verbatim>\<open>if (filter.type)\<close>, \<^verbatim>\<open>if (filter.startDate)\<close> test truthiness:
  \<^verbatim>\<open>undefined\<close> and the empty string are falsy, every other string and every object is truthy.
\<close>

fun truthy_string :: "jsstring option \<Rightarrow> bool" where
  "truthy_string None = False"
| "truthy_string (Some s) = (s \<noteq> [])"

fun truthy_object :: "'a option \<Rightarrow> bool" where
  "truthy_object None = False"
| "truthy_object (Some d) = True"

definition getEventHistory :: "history_filter \<Rightarrow> Telephone \<Rightarrow> PhoneEvent list" where
  "getEventHistory flt this =
     (let filteredHistory = eventHistory this;
          filteredHistory =
            (if truthy_string (filter_type flt)
             then filter (\<lambda>event. Some (type event) = filter_type flt) filteredHistory
             else filteredHistory);
          filteredHistory =
            (if truthy_object (startDate flt)
             then filter (\<lambda>event. timestamp event \<ge> the (startDate flt)) filteredHistory
             else filteredHistory);
          filteredHistory =
            (if truthy_object (endDate flt)
             then filter (\<lambda>event. timestamp event \<le> the (endDate flt)) filteredHistory
             else filteredHistory)
      in filteredHistory)"


section \<open>Adding and removing numbers\<close>

text \<open>
  The parameter \<^verbatim>\<open>phoneNumber\<close> of the registry's methods is \<open>raw\<close> here, \<open>phoneNumber\<close>
  being the field of an event.
  The \<^verbatim>\<open>catch\<close> blocks of the registry log the message of the error and throw the error
  again. The lines that the registry writes to the console do not reach its state or its
  results and are left out.
\<close>

definition addPhoneNumber :: "jsstring \<Rightarrow> int \<Rightarrow> Telephone \<Rightarrow> (jsval + jsstring) \<times> Telephone" where
  "addPhoneNumber raw now this =
     (case validatePhoneNumber raw of
        Inl error \<Rightarrow> (Inl (rethrown error), this)
      | Inr normalizedNumber \<Rightarrow>
          (Inr normalizedNumber,
           addToHistory (PhoneEvent_new (js ''add'') normalizedNumber now)
             (this\<lparr>phoneNumbers := insert normalizedNumber (phoneNumbers this)\<rparr>)))"

definition removePhoneNumber :: "jsstring \<Rightarrow> int \<Rightarrow> Telephone \<Rightarrow> (jsval + bool) \<times> Telephone" where
  "removePhoneNumber raw now this =
     (case validatePhoneNumber raw of
        Inl error \<Rightarrow> (Inl (rethrown error), this)
      | Inr normalizedNumber \<Rightarrow>
          if normalizedNumber \<in> phoneNumbers this
          then (Inr True,
                addToHistory (PhoneEvent_new (js ''remove'') normalizedNumber now)
                  (this\<lparr>phoneNumbers := phoneNumbers this - {normalizedNumber}\<rparr>))
          else (Inr False, this))"


section \<open>Promises\<close>

text \<open>
  Time is counted in turns of the event loop after the call under study: a promise carries
  the turn in which it settles (0: already settled, or settled before the loop turns
  again) and its outcome. Handlers are assumed to settle.
\<close>

datatype 'a promise = Fulfilled nat 'a | Rejected nat jsval

fun settles_at :: "'a promise \<Rightarrow> nat" where
  "settles_at (Fulfilled t v) = t"
| "settles_at (Rejected t e) = t"

text \<open>
  \<^verbatim>\<open>Promise.all\<close> is fulfilled once every input is, and rejected as soon as one input is,
  with the reason of the input that is rejected first (of the earlier one in the array,
  for two that are rejected in the same turn).
\<close>

fun Promise_all :: "'a promise list \<Rightarrow> 'a list promise" where
  "Promise_all [] = Fulfilled 0 []"
| "Promise_all (Fulfilled t v # ps) =
     (case Promise_all ps of
        Fulfilled t' vs \<Rightarrow> Fulfilled (max t t') (v # vs)
      | Rejected t' e \<Rightarrow> Rejected t' e)"
| "Promise_all (Rejected t e # ps) =
     (case Promise_all ps of
        Fulfilled t' vs \<Rightarrow> Rejected t e
      | Rejected t' e' \<Rightarrow> if t' < t then Rejected t' e' else Rejected t e)"

text \<open>
  An \<^verbatim>\<open>async\<close> function whose last statement is \<^verbatim>\<open>await p\<close>: its promise settles with
  \<open>p\<close>, fulfilled with \<^verbatim>\<open>undefined\<close> or rejected with the reason of \<open>p\<close>.
\<close>

fun await_last :: "'a promise \<Rightarrow> unit promise" where
  "await_last (Fulfilled t v) = Fulfilled t ()"
| "await_last (Rejected t e) = Rejected t e"


section \<open>Observers\<close>

text \<open>
  A handler is called with the number. It throws, or returns a value that is not a
  promise, or returns a promise. What a handler does besides is not modelled; in
  particular it does not call back into the registry.
\<close>

datatype returned = Plain | PromiseVal "unit promise"

type_synonym outcome = "jsval + returned"
type_synonym handler = "jsstring \<Rightarrow> outcome"

record PhoneNumberObserver =
  obs_id :: jsstring
  types :: "jsstring set"
  customHandlers :: "jsstring \<rightharpoonup> handler"

definition PhoneNumberObserver_new :: "jsstring \<Rightarrow> jsstring list \<Rightarrow> PhoneNumberObserver" where
  "PhoneNumberObserver_new ident ts =
     \<lparr>obs_id = ident, types = set ts, customHandlers = Map.empty\<rparr>"

definition addCustomNotification ::
    "jsstring \<Rightarrow> handler \<Rightarrow> PhoneNumberObserver \<Rightarrow> PhoneNumberObserver" where
  "addCustomNotification t h this =
     this\<lparr>customHandlers := (customHandlers this)(t \<mapsto> h), types := insert t (types this)\<rparr>"

text \<open>
  What \<^verbatim>\<open>notify\<close> runs: a line written with \<^verbatim>\<open>console.log\<close>, or the call of the custom
  handler of an event type with the number. An action is what ran, with how it ended.
\<close>

datatype effect = ConsoleLog jsstring | ConsoleError jsstring | HandlerCall jsstring jsstring

type_synonym action = "effect \<times> outcome"

text \<open>\<^verbatim>\<open>Promise.resolve\<close>: a promise is returned as it is, another value in a fulfilled promise.\<close>

fun Promise_resolve :: "returned \<Rightarrow> unit promise" where
  "Promise_resolve Plain = Fulfilled 0 ()"
| "Promise_resolve (PromiseVal p) = p"

text \<open>
  The body of \<^verbatim>\<open>notify\<close> up to its \<^verbatim>\<open>await\<close>: each action runs and the promise of its
  result is pushed, in order; an action that throws ends the body with that error.
\<close>

fun pushed :: "outcome list \<Rightarrow> jsval + unit promise list" where
  "pushed [] = Inr []"
| "pushed (Inl e # rs) = Inl e"
| "pushed (Inr v # rs) =
     (case pushed rs of Inl e \<Rightarrow> Inl e | Inr ps \<Rightarrow> Inr (Promise_resolve v # ps))"

text \<open>
  \<^verbatim>\<open>notify\<close> returns the actions it launched and the promise of the \<^verbatim>\<open>async\<close> function.
  \<^verbatim>\<open>console.log\<close> returns \<^verbatim>\<open>undefined\<close> at once.
\<close>

definition notify :: "PhoneNumberObserver \<Rightarrow> jsstring \<Rightarrow> jsstring \<Rightarrow> action list \<times> unit promise" where
  "notify this number eventType =
     (let notifications =
            (if js ''simple'' \<in> types this then [(ConsoleLog number, Inr Plain)] else []) @
            (if js ''detailed'' \<in> types this
             then [(ConsoleLog (js ''Now Dialing '' @ number @ js ''...''), Inr Plain)] else []) @
            (case customHandlers this eventType of
               None \<Rightarrow> []
             | Some handler \<Rightarrow> [(HandlerCall eventType number, handler number)])
      in (notifications,
          case pushed (map snd notifications) of
            Inl e \<Rightarrow> Rejected 0 e
          | Inr ps \<Rightarrow> await_last (Promise_all ps)))"

text \<open>
  \<^verbatim>\<open>p.catch(error => console.error(...))\<close> in \<^verbatim>\<open>notifyObservers\<close>: a fulfilled promise
  passes; on a rejected one the callback runs, and the result is fulfilled when the
  callback returns and rejected when the callback throws.
\<close>

fun catch_log :: "PhoneNumberObserver \<Rightarrow> unit promise \<Rightarrow> effect list \<times> unit promise" where
  "catch_log observer (Fulfilled t v) = ([], Fulfilled t v)"
| "catch_log observer (Rejected t error) =
     (case message_of error of
        Inl thrown \<Rightarrow> ([], Rejected t thrown)
      | Inr message \<Rightarrow>
          ([ConsoleError (js ''Failed to notify observer '' @ obs_id observer @ js '': '' @ message)],
           Fulfilled t ()))"

text \<open>
  A report is what one observer did in a fan-out: its reference, the actions its
  \<^verbatim>\<open>notify\<close> launched, and what the \<^verbatim>\<open>catch\<close> callback wrote.
\<close>

type_synonym report = "ref \<times> action list \<times> effect list"

text \<open>\<^verbatim>\<open>notifyObservers\<close>; \<^verbatim>\<open>observer.notify(phoneNumber)\<close> takes the default event type.\<close>

definition notifyObservers ::
    "(ref \<Rightarrow> PhoneNumberObserver) \<Rightarrow> jsstring \<Rightarrow> Telephone \<Rightarrow> report list \<times> unit promise" where
  "notifyObservers heap number this =
     (let notifications =
            map (\<lambda>r. let observer = heap r;
                         (acts, p) = notify observer number (js ''dial'');
                         (errs, q) = catch_log observer p
                     in ((r, acts, errs), q))
              (observers this)
      in (map fst notifications, await_last (Promise_all (map snd notifications))))"


section \<open>Dialling and the observer set\<close>

text \<open>
  \<^verbatim>\<open>dialPhoneNumber\<close> is \<^verbatim>\<open>async\<close>: it returns a promise, and an error that leaves its body
  (through the \<^verbatim>\<open>catch\<close> block) rejects that promise. The result is the promise, the
  registry and the reports of the observers.
\<close>

definition dialPhoneNumber ::
    "(ref \<Rightarrow> PhoneNumberObserver) \<Rightarrow> jsstring \<Rightarrow> int \<Rightarrow> Telephone \<Rightarrow>
       bool promise \<times> Telephone \<times> report list" where
  "dialPhoneNumber heap raw now this =
     (case validatePhoneNumber raw of
        Inl error \<Rightarrow> (Rejected 0 (rethrown error), this, [])
      | Inr normalizedNumber \<Rightarrow>
          if normalizedNumber \<in> phoneNumbers this
          then (let this' = addToHistory (PhoneEvent_new (js ''dial'') normalizedNumber now) this;
                    (reports, p) = notifyObservers heap normalizedNumber this'
                in (case p of
                      Fulfilled t v \<Rightarrow> (Fulfilled t True, this', reports)
                    | Rejected t error \<Rightarrow> (Rejected t (rethrown error), this', reports)))
          else (Fulfilled 0 False, this, []))"

text \<open>
  The call of an \<^verbatim>\<open>async\<close> function as its caller sees it, with \<open>Inl\<close> for a throw as in the
  other methods: the call never throws, it returns the promise, whatever happened in the
  body.
\<close>

definition async_call :: "'a promise \<Rightarrow> jsval + 'a promise" where
  "async_call p = Inr p"

text \<open>\<^verbatim>\<open>Set.prototype.add\<close> and \<^verbatim>\<open>delete\<close> on the insertion-ordered set of references.\<close>

definition Set_add :: "'a \<Rightarrow> 'a list \<Rightarrow> 'a list" where
  "Set_add x xs = (if x \<in> set xs then xs else xs @ [x])"

definition Set_delete :: "'a \<Rightarrow> 'a list \<Rightarrow> bool \<times> 'a list" where
  "Set_delete x xs = (x \<in> set xs, removeAll x xs)"

definition addObserver :: "(ref \<Rightarrow> PhoneNumberObserver) \<Rightarrow> ref \<Rightarrow> int \<Rightarrow> Telephone \<Rightarrow> Telephone" where
  "addObserver heap observer now this =
     addToHistory (PhoneEvent_new (js ''observerAdded'') (obs_id (heap observer)) now)
       (this\<lparr>observers := Set_add observer (observers this)\<rparr>)"

definition removeObserver ::
    "(ref \<Rightarrow> PhoneNumberObserver) \<Rightarrow> ref \<Rightarrow> int \<Rightarrow> Telephone \<Rightarrow> bool \<times> Telephone" where
  "removeObserver heap observer now this =
     (let (deleted, rest) = Set_delete observer (observers this)
      in if deleted
         then (True,
               addToHistory (PhoneEvent_new (js ''observerRemoved'') (obs_id (heap observer)) now)
                 (this\<lparr>observers := rest\<rparr>))
         else (False, this))"


section \<open>Sequences of calls\<close>

text \<open>
  A call of a method of the registry, with what it reads from outside: the clock and,
  where observers are read, the heap at the time of the call.
\<close>

datatype call =
    AddPhoneNumber jsstring int
  | RemovePhoneNumber jsstring int
  | DialPhoneNumber "ref \<Rightarrow> PhoneNumberObserver" jsstring int
  | AddObserver "ref \<Rightarrow> PhoneNumberObserver" ref int
  | RemoveObserver "ref \<Rightarrow> PhoneNumberObserver" ref int
  | GetEventHistory history_filter

text \<open>
  The registry after a call, whatever the call returned or threw. Every write of
  \<^verbatim>\<open>dialPhoneNumber\<close> comes before its first \<^verbatim>\<open>await\<close>, so a later call finds the registry
  as \<open>step\<close> leaves it, whether the fan-out has finished or not.
\<close>

fun step :: "call \<Rightarrow> Telephone \<Rightarrow> Telephone" where
  "step (AddPhoneNumber raw now) this = snd (addPhoneNumber raw now this)"
| "step (RemovePhoneNumber raw now) this = snd (removePhoneNumber raw now this)"
| "step (DialPhoneNumber heap raw now) this = fst (snd (dialPhoneNumber heap raw now this))"
| "step (AddObserver heap observer now) this = addObserver heap observer now this"
| "step (RemoveObserver heap observer now) this = snd (removeObserver heap observer now this)"
| "step (GetEventHistory flt) this = this"

fun run :: "call list \<Rightarrow> Telephone \<Rightarrow> Telephone" where
  "run [] this = this"
| "run (c # cs) this = run cs (step c this)"


section \<open>Notions used in the statements\<close>

subsection \<open>The format of a phone number\<close>

text \<open>
  The format in plain terms: an optional \<open>+\<close>, then at least ten characters, each a digit,
  a space character (one that \<^verbatim>\<open>\s\<close> matches) or a hyphen, up to the end of the string.
\<close>

definition phone_class :: "jschar \<Rightarrow> bool" where
  "phone_class c = (is_digit c \<or> is_space c \<or> c = hyphen)"

definition phone_format :: "jsstring \<Rightarrow> bool" where
  "phone_format s =
     (case s of
        [] \<Rightarrow> False
      | c # r \<Rightarrow> if c = plus then 10 \<le> length r \<and> list_all phone_class r
                 else 10 \<le> length s \<and> list_all phone_class s)"

definition strip_separators :: "jsstring \<Rightarrow> jsstring" where
  "strip_separators s = filter (\<lambda>c. \<not> (is_space c \<or> c = hyphen)) s"

definition invalid_format :: jsval where
  "invalid_format = PhoneNumberError (js ''Invalid phone number format'')"


subsection \<open>The events a call appends\<close>

text \<open>
  The events that a call hands to \<^verbatim>\<open>addToHistory\<close>, read off the methods: one event or
  none. \<open>trace\<close> collects them over a sequence of calls, the oldest first.
\<close>

fun appended :: "call \<Rightarrow> Telephone \<Rightarrow> PhoneEvent list" where
  "appended (AddPhoneNumber raw now) this =
     (case validatePhoneNumber raw of
        Inl error \<Rightarrow> []
      | Inr n \<Rightarrow> [PhoneEvent_new (js ''add'') n now])"
| "appended (RemovePhoneNumber raw now) this =
     (case validatePhoneNumber raw of
        Inl error \<Rightarrow> []
      | Inr n \<Rightarrow> if n \<in> phoneNumbers this then [PhoneEvent_new (js ''remove'') n now] else [])"
| "appended (DialPhoneNumber heap raw now) this =
     (case validatePhoneNumber raw of
        Inl error \<Rightarrow> []
      | Inr n \<Rightarrow> if n \<in> phoneNumbers this then [PhoneEvent_new (js ''dial'') n now] else [])"
| "appended (AddObserver heap observer now) this =
     [PhoneEvent_new (js ''observerAdded'') (obs_id (heap observer)) now]"
| "appended (RemoveObserver heap observer now) this =
     (if observer \<in> set (observers this)
      then [PhoneEvent_new (js ''observerRemoved'') (obs_id (heap observer)) now] else [])"
| "appended (GetEventHistory flt) this = []"

fun trace :: "call list \<Rightarrow> Telephone \<Rightarrow> PhoneEvent list" where
  "trace [] this = []"
| "trace (c # cs) this = appended c this @ trace cs (step c this)"

text \<open>The last \<open>n\<close> elements of a list, in their order.\<close>

definition last_n :: "nat \<Rightarrow> 'a list \<Rightarrow> 'a list" where
  "last_n n xs = drop (length xs - n) xs"

subsection \<open>Filters\<close>

text \<open>
  An event satisfies a filter when it meets every option that is given: the type is equal,
  the timestamp is not before the start date and not after the end date.
\<close>

definition satisfies :: "history_filter \<Rightarrow> PhoneEvent \<Rightarrow> bool" where
  "satisfies flt event =
     ((case filter_type flt of None \<Rightarrow> True | Some t \<Rightarrow> type event = t) \<and>
      (case startDate flt of None \<Rightarrow> True | Some d \<Rightarrow> timestamp event \<ge> d) \<and>
      (case endDate flt of None \<Rightarrow> True | Some d \<Rightarrow> timestamp event \<le> d))"

text \<open>
  The kinds of event that the registry appends, and the filters of the specification: the
  type, when given, is one of these kinds (the dates are \<^verbatim>\<open>Date\<close> objects by their type).
\<close>

definition EventKind :: "jsstring set" where
  "EventKind =
     {js ''add'', js ''remove'', js ''dial'', js ''observerAdded'', js ''observerRemoved''}"

definition typed_filter :: "history_filter \<Rightarrow> bool" where
  "typed_filter flt = (case filter_type flt of None \<Rightarrow> True | Some t \<Rightarrow> t \<in> EventKind)"

text \<open>The options that the guards of \<^verbatim>\<open>getEventHistory\<close> let through: an empty type is dropped.\<close>

definition effective :: "history_filter \<Rightarrow> history_filter" where
  "effective flt =
     flt\<lparr>filter_type := (if filter_type flt = Some [] then None else filter_type flt)\<rparr>"

subsection \<open>Actions of an observer\<close>

text \<open>
  The turn in which an action has completed, and the error it failed with, if it failed:
  a call that throws and a call that returns a plain value are over at once, a returned
  promise when it settles.
\<close>

fun completes_at :: "outcome \<Rightarrow> nat" where
  "completes_at (Inl e) = 0"
| "completes_at (Inr Plain) = 0"
| "completes_at (Inr (PromiseVal p)) = settles_at p"

fun failure :: "outcome \<Rightarrow> jsval option" where
  "failure (Inl e) = Some e"
| "failure (Inr Plain) = None"
| "failure (Inr (PromiseVal (Fulfilled t v))) = None"
| "failure (Inr (PromiseVal (Rejected t e))) = Some e"

text \<open>The failure that comes first in time among the actions, with its turn.\<close>

fun first_failure :: "action list \<Rightarrow> (nat \<times> jsval) option" where
  "first_failure [] = None"
| "first_failure (a # as) =
     (case failure (snd a) of
        None \<Rightarrow> first_failure as
      | Some e \<Rightarrow>
          (case first_failure as of
             None \<Rightarrow> Some (completes_at (snd a), e)
           | Some (t, e') \<Rightarrow> if t < completes_at (snd a) then Some (t, e')
                             else Some (completes_at (snd a), e)))"

fun reason :: "'a promise \<Rightarrow> jsval option" where
  "reason (Fulfilled t v) = None"
| "reason (Rejected t e) = Some e"

fun fulfilled :: "'a promise \<Rightarrow> bool" where
  "fulfilled (Fulfilled t v) = True"
| "fulfilled (Rejected t e) = False"

text \<open>
  The \<^verbatim>\<open>catch\<close> callback of \<^verbatim>\<open>notifyObservers\<close> copes with a promise that is fulfilled, or
  rejected with a reason that is not nullish.
\<close>

fun has_message :: "jsval \<Rightarrow> bool" where
  "has_message Undefined = False"
| "has_message Null = False"
| "has_message v = True"

fun caught :: "'a promise \<Rightarrow> bool" where
  "caught (Fulfilled t v) = True"
| "caught (Rejected t e) = has_message e"

subsection \<open>A registry with a rejecting observer\<close>

text \<open>
  An observer subscribed to \<^verbatim>\<open>simple\<close> whose handler for \<^verbatim>\<open>dial\<close> returns
  \<^verbatim>\<open>Promise.reject()\<close>, a promise rejected with \<^verbatim>\<open>undefined\<close>; and the registry after
  \<^verbatim>\<open>addPhoneNumber('+1-234-567-8900')\<close> and \<^verbatim>\<open>addObserver\<close> of that observer.
\<close>

definition rejecting_observer :: PhoneNumberObserver where
  "rejecting_observer =
     addCustomNotification (js ''dial'') (\<lambda>number. Inr (PromiseVal (Rejected 0 Undefined)))
       (PhoneNumberObserver_new (js ''obs1'') [js ''simple''])"

text \<open>
  An observer with both built-in tags whose handler for \<^verbatim>\<open>dial\<close> returns a promise that is
  rejected three turns later with \<^verbatim>\<open>new Error('busy')\<close>.
\<close>

definition busy_observer :: PhoneNumberObserver where
  "busy_observer =
     addCustomNotification (js ''dial'')
       (\<lambda>number. Inr (PromiseVal (Rejected 3 (ErrorObj (js ''Error'') (js ''busy'')))))
       (PhoneNumberObserver_new (js ''obs2'') [js ''simple'', js ''detailed''])"

definition dialled_registry :: Telephone where
  "dialled_registry =
     addObserver (\<lambda>r. rejecting_observer) 0 1
       (snd (addPhoneNumber (js ''+1-234-567-8900'') 0 (Telephone_new [])))"


section \<open>Validation: properties\<close>

lemmas char_simps = js_def plus_def hyphen_def is_digit_def is_space_def

lemma rethrown_ErrorObj [simp]: "rethrown (ErrorObj name message) = ErrorObj name message"
  by (simp add: rethrown_def)

lemma rethrown_invalid_format [simp]: "rethrown invalid_format = invalid_format"
  by (simp add: invalid_format_def PhoneNumberError_def)

lemma rethrown_TypeError [simp]: "rethrown TypeError = TypeError"
  by (simp add: TypeError_def)

lemma takeWhile_all: "length (takeWhile P xs) = length xs \<longleftrightarrow> list_all P xs"
  by (induction xs) (auto simp: le_Suc_eq dest: length_takeWhile_le [THEN le_trans])

lemma concat_Eol_nonempty:
  "concat (map (rmatch Eol s) es) \<noteq> [] \<longleftrightarrow> length s \<in> set es"
  by (induction es) auto

text \<open>A run under \<^verbatim>\<open>{n,}\<close> followed by \<^verbatim>\<open>$\<close> matches when some admissible length ends the string.\<close>

lemma set_rmatch_AtLeast:
  "set (rmatch (AtLeast n cls) s j) =
     (\<lambda>k. j + k) ` {n..length (takeWhile (in_class cls) (drop j s))}"
  by (simp add: Let_def atLeastLessThanSuc_atLeastAtMost del: upt_Suc)

lemma rmatch_run_ends:
  "rmatch (Seq (AtLeast n cls) Eol) s j \<noteq> [] \<longleftrightarrow>
     (\<exists>k. n \<le> k \<and> k \<le> length (takeWhile (in_class cls) (drop j s)) \<and> j + k = length s)"
proof -
  have "rmatch (Seq (AtLeast n cls) Eol) s j \<noteq> [] \<longleftrightarrow>
        length s \<in> set (rmatch (AtLeast n cls) s j)"
    by (simp only: rmatch.simps(6) concat_Eol_nonempty)
  also have "\<dots> \<longleftrightarrow>
      (\<exists>k. n \<le> k \<and> k \<le> length (takeWhile (in_class cls) (drop j s)) \<and> j + k = length s)"
  proof
    assume "length s \<in> set (rmatch (AtLeast n cls) s j)"
    then obtain k where "k \<in> {n..length (takeWhile (in_class cls) (drop j s))}"
      and "length s = j + k"
      unfolding set_rmatch_AtLeast by (rule imageE)
    then have "n \<le> k \<and> k \<le> length (takeWhile (in_class cls) (drop j s)) \<and> j + k = length s"
      by simp
    then show "\<exists>k. n \<le> k \<and> k \<le> length (takeWhile (in_class cls) (drop j s)) \<and> j + k = length s"
      by (rule exI)
  next
    assume "\<exists>k. n \<le> k \<and> k \<le> length (takeWhile (in_class cls) (drop j s)) \<and> j + k = length s"
    then obtain k where "n \<le> k" "k \<le> length (takeWhile (in_class cls) (drop j s))"
      and "j + k = length s"
      by blast
    then have "length s = j + k" and "k \<in> {n..length (takeWhile (in_class cls) (drop j s))}"
      by simp_all
    then show "length s \<in> set (rmatch (AtLeast n cls) s j)"
      unfolding set_rmatch_AtLeast by (rule image_eqI)
  qed
  finally show ?thesis .
qed

lemma rmatch_run_to_end:
  assumes "j \<le> length s"
  shows "rmatch (Seq (AtLeast n cls) Eol) s j \<noteq> [] \<longleftrightarrow>
     n \<le> length s - j \<and> list_all (in_class cls) (drop j s)"
proof -
  let ?m = "length (takeWhile (in_class cls) (drop j s))"
  have le: "?m \<le> length s - j"
    using length_takeWhile_le [of "in_class cls" "drop j s"] by simp
  have "(\<exists>k. n \<le> k \<and> k \<le> ?m \<and> j + k = length s) \<longleftrightarrow>
        n \<le> length s - j \<and> ?m = length (drop j s)"
    using assms le by auto
  then show ?thesis
    by (simp only: rmatch_run_ends takeWhile_all)
qed

lemma list_ex_upt_first:
  assumes "\<And>i. 0 < i \<Longrightarrow> \<not> P i"
  shows "list_ex P [0..<Suc n] \<longleftrightarrow> P 0"
proof
  assume "list_ex P [0..<Suc n]"
  then obtain i where "P i" by (auto simp: list_ex_iff)
  with assms show "P 0" by (cases "i = 0") auto
next
  assume "P 0"
  then show "list_ex P [0..<Suc n]" by (auto simp: list_ex_iff simp del: upt_Suc)
qed

text \<open>Under \<^verbatim>\<open>^\<close> only the start index 0 can match.\<close>

lemma test_anchored: "RegExp_test (Seq Bol r) s \<longleftrightarrow> rmatch r s 0 \<noteq> []"
  unfolding RegExp_test_def by (subst list_ex_upt_first) auto

lemma in_class_phone: "in_class [Digit, Space, Lit hyphen] = phone_class"
  by (rule ext) (simp add: in_class_def phone_class_def)

lemma plus_not_phone_class: "\<not> phone_class plus"
  by (simp add: phone_class_def char_simps)

lemma rmatch_Opt_Chr:
  "rmatch (Seq (Opt (Chr c)) r) s 0 =
     (case s of [] \<Rightarrow> rmatch r s 0
      | x # xs \<Rightarrow> if x = c then rmatch r s (Suc 0) @ rmatch r s 0 else rmatch r s 0)"
  by (cases s) simp_all

lemma test_phoneRegex: "RegExp_test phoneRegex s \<longleftrightarrow> phone_format s"
proof -
  define run where "run = Seq (AtLeast 10 [Digit, Space, Lit hyphen]) Eol"
  have test: "RegExp_test phoneRegex s \<longleftrightarrow> rmatch (Seq (Opt (Chr plus)) run) s 0 \<noteq> []"
    unfolding run_def phoneRegex_def by (rule test_anchored)
  have run: "rmatch run s j \<noteq> [] \<longleftrightarrow> 10 \<le> length s - j \<and> list_all phone_class (drop j s)"
    if "j \<le> length s" for j
    unfolding run_def using rmatch_run_to_end [OF that, of 10 "[Digit, Space, Lit hyphen]"]
    by (simp only: in_class_phone)
  show ?thesis
  proof (cases s)
    case Nil
    then show ?thesis
      using test run [of 0] by (simp add: rmatch_Opt_Chr phone_format_def)
  next
    case (Cons c r)
    show ?thesis
    proof (cases "c = plus")
      case True
      have "rmatch run s 0 = []"
        using run [of 0] Cons True plus_not_phone_class by simp
      moreover have "rmatch run s (Suc 0) \<noteq> [] \<longleftrightarrow> 10 \<le> length r \<and> list_all phone_class r"
        using run [of "Suc 0"] Cons by simp
      ultimately show ?thesis
        using test Cons True by (simp add: rmatch_Opt_Chr phone_format_def)
    next
      case False
      then show ?thesis
        using test run [of 0] Cons by (simp add: rmatch_Opt_Chr phone_format_def)
    qed
  qed
qed

lemma replace_strips: "String_replace_g [Space, Lit hyphen] [] s = strip_separators s"
  by (induction s) (simp_all add: strip_separators_def in_class_def)

lemma validate_cases:
  "validatePhoneNumber s = (if phone_format s then Inr (strip_separators s) else Inl invalid_format)"
  by (simp add: validatePhoneNumber_def test_phoneRegex replace_strips invalid_format_def)

lemma digit_not_separator: "is_digit c \<Longrightarrow> \<not> is_space c \<and> c \<noteq> hyphen"
  by (auto simp: is_digit_def is_space_def hyphen_def word_le_nat_alt)

lemma strip_phone_class: "list_all phone_class s \<Longrightarrow> strip_separators s = filter is_digit s"
  unfolding strip_separators_def
  by (induction s) (auto simp: phone_class_def dest: digit_not_separator)

lemma plus_not_separator: "\<not> is_space plus \<and> plus \<noteq> hyphen \<and> \<not> is_digit plus"
  by (simp add: char_simps)

lemma strip_idem: "strip_separators (strip_separators s) = strip_separators s"
  by (simp add: strip_separators_def)

lemma digits_phone_class: "list_all phone_class (filter is_digit s)"
  by (induction s) (simp_all add: phone_class_def)

text \<open>
  A normalized number is in the format again exactly when the string it comes from has
  ten digits: the separators counted towards the ten characters and are gone.
\<close>

lemma phone_format_strip:
  assumes "phone_format s"
  shows "phone_format (strip_separators s) \<longleftrightarrow> 10 \<le> length (filter is_digit s)"
proof (cases s)
  case Nil
  with assms show ?thesis by (simp add: phone_format_def)
next
  case (Cons c r)
  show ?thesis
  proof (cases "c = plus")
    case True
    with assms Cons have "list_all phone_class r" by (simp add: phone_format_def)
    then have "strip_separators s = plus # filter is_digit r"
      using Cons True strip_phone_class [of r] plus_not_separator
      by (simp add: strip_separators_def)
    then show ?thesis
      using Cons True plus_not_separator digits_phone_class [of r]
      by (simp add: phone_format_def)
  next
    case False
    with assms Cons have "list_all phone_class s" by (simp add: phone_format_def)
    then have eq: "strip_separators s = filter is_digit s"
      by (rule strip_phone_class)
    have "filter is_digit s = [] \<or> hd (filter is_digit s) \<noteq> plus"
      using plus_not_separator hd_in_set [of "filter is_digit s"] by auto
    then show ?thesis
      using eq digits_phone_class [of s]
      by (cases "filter is_digit s") (auto simp: phone_format_def)
  qed
qed

lemma separators_strip_empty:
  "list_all (\<lambda>c. is_space c \<or> c = hyphen) s \<Longrightarrow> strip_separators s = []"
  by (induction s) (auto simp: strip_separators_def)

lemma separators_phone_format:
  assumes "10 \<le> length s" and "list_all (\<lambda>c. is_space c \<or> c = hyphen) s"
  shows "phone_format s"
proof -
  have "list_all phone_class s"
    using assms(2) by (induction s) (auto simp: phone_class_def)
  moreover have "hd s \<noteq> plus"
    using assms plus_not_separator by (cases s) auto
  ultimately show ?thesis
    using assms(1) by (cases s) (auto simp: phone_format_def)
qed


text \<open>
  C1. For every string \<open>s\<close>, \<^verbatim>\<open>validatePhoneNumber\<close> succeeds exactly when the whole of \<open>s\<close>
  matches \<^verbatim>\<open>^\+?[\d\s-]{10,}$\<close>, that is, when \<open>s\<close> is an optional leading \<open>+\<close> followed by at
  least ten characters, each a digit, a space character (one that \<^verbatim>\<open>\s\<close> matches) or a
  hyphen. On success it returns \<open>s\<close> without its spaces and hyphens, the \<open>+\<close> kept; for
  every other string it throws the error with the message \<^verbatim>\<open>Invalid phone number format\<close>.
\<close>

theorem validatePhoneNumber_format:
  "(RegExp_test phoneRegex s \<longleftrightarrow> phone_format s) \<and>
   validatePhoneNumber s =
     (if phone_format s then Inr (strip_separators s)
      else Inl (PhoneNumberError (js ''Invalid phone number format'')))"
  by (simp add: test_phoneRegex validate_cases invalid_format_def)

theorem validatePhoneNumber_format_witness:
  "phone_format (js ''+1-234-567-8900'') \<and>
   validatePhoneNumber (js ''+1-234-567-8900'') = Inr (js ''+12345678900'') \<and>
   \<not> phone_format (js ''invalid'') \<and>
   validatePhoneNumber (js ''invalid'') =
     Inl (PhoneNumberError (js ''Invalid phone number format''))"
  using validatePhoneNumber_format [of "js ''+1-234-567-8900''"]
    validatePhoneNumber_format [of "js ''invalid''"]
  by (simp add: phone_format_def phone_class_def strip_separators_def char_simps)

text \<open>
  C8, as the code has it. For every string \<open>s\<close> that validation accepts, with the normalized
  result \<open>n\<close>: stripping \<open>n\<close> again returns \<open>n\<close> unchanged, and \<^verbatim>\<open>validatePhoneNumber\<close> applied
  to \<open>n\<close> returns \<open>n\<close> when \<open>s\<close> has at least ten digits and throws otherwise.
\<close>

theorem normalization_idempotent:
  assumes "validatePhoneNumber s = Inr n"
  shows "String_replace_g [Space, Lit hyphen] [] n = n \<and>
         validatePhoneNumber n =
           (if 10 \<le> length (filter is_digit s) then Inr n
            else Inl (PhoneNumberError (js ''Invalid phone number format'')))"
proof -
  from assms have fmt: "phone_format s" and n: "n = strip_separators s"
    by (auto simp: validate_cases split: if_splits)
  show ?thesis
    using phone_format_strip [OF fmt]
    by (simp add: n validate_cases replace_strips strip_idem invalid_format_def)
qed

theorem normalization_idempotent_witness:
  "validatePhoneNumber (js ''555-0123-4567'') = Inr (js ''55501234567'') \<and>
   String_replace_g [Space, Lit hyphen] [] (js ''55501234567'') = js ''55501234567'' \<and>
   validatePhoneNumber (js ''55501234567'') = Inr (js ''55501234567'')"
proof -
  have v: "validatePhoneNumber (js ''555-0123-4567'') = Inr (js ''55501234567'')"
    by (simp add: validate_cases phone_format_def phone_class_def strip_separators_def char_simps)
  show ?thesis
    using v normalization_idempotent [OF v] by (simp add: char_simps)
qed

text \<open>
  C8 as stated fails: ten hyphens are accepted and normalized to the empty string, which
  validation then rejects instead of returning it.
\<close>

theorem normalization_revalidate_counterexample:
  "validatePhoneNumber (js ''----------'') = Inr [] \<and> validatePhoneNumber [] \<noteq> Inr []"
  by (simp add: validate_cases phone_format_def phone_class_def strip_separators_def char_simps)

text \<open>
  C10. Validation accepts strings without any digit: every string of at least ten
  characters that are white space or hyphens (ten hyphens, for one) is accepted and
  normalized to the empty string; \<^verbatim>\<open>addPhoneNumber\<close> then succeeds, returns the empty string
  and stores it in the number set.
\<close>

theorem digitless_number_stored:
  assumes "10 \<le> length s" and "list_all (\<lambda>c. is_space c \<or> c = hyphen) s"
  shows "\<not> list_ex is_digit s \<and>
         validatePhoneNumber s = Inr [] \<and>
         fst (addPhoneNumber s now this) = Inr [] \<and>
         [] \<in> phoneNumbers (snd (addPhoneNumber s now this))"
proof -
  have "\<not> list_ex is_digit s"
    using assms(2) digit_not_separator by (auto simp: list_ex_iff list_all_iff)
  moreover have "validatePhoneNumber s = Inr []"
    using separators_phone_format [OF assms] separators_strip_empty [OF assms(2)]
    by (simp add: validate_cases)
  ultimately show ?thesis
    by (simp add: addPhoneNumber_def addToHistory_def Let_def)
qed

theorem digitless_number_stored_witness:
  "10 \<le> length (js ''----------'') \<and>
   list_all (\<lambda>c. is_space c \<or> c = hyphen) (js ''----------'') \<and>
   validatePhoneNumber (js ''----------'') = Inr [] \<and>
   fst (addPhoneNumber (js ''----------'') 0 (Telephone_new [])) = Inr [] \<and>
   [] \<in> phoneNumbers (snd (addPhoneNumber (js ''----------'') 0 (Telephone_new [])))"
proof -
  have a: "10 \<le> length (js ''----------'')"
    by (simp add: js_def)
  have b: "list_all (\<lambda>c. is_space c \<or> c = hyphen) (js ''----------'')"
    by (simp add: char_simps)
  show ?thesis
    using a b digitless_number_stored [OF a b, of 0 "Telephone_new []"] by simp
qed


section \<open>The event history: properties\<close>

lemma addToHistory_max [simp]: "maxHistorySize (addToHistory e s) = maxHistorySize s"
  by (simp add: addToHistory_def Let_def)

text \<open>
  One append keeps the history the last \<open>maxHistorySize\<close> events of everything appended.
\<close>

lemma addToHistory_last_n:
  assumes "eventHistory s = last_n (maxHistorySize s) tr"
  shows "eventHistory (addToHistory e s) = last_n (maxHistorySize s) (tr @ [e])"
proof (cases "length tr < maxHistorySize s")
  case True
  with assms show ?thesis
    by (simp add: addToHistory_def Let_def last_n_def)
next
  case False
  let ?m = "maxHistorySize s" and ?k = "length tr - maxHistorySize s"
  from False have len: "length (eventHistory s) = ?m"
    using assms by (simp add: last_n_def)
  show ?thesis
  proof (cases "?m = 0")
    case True
    with assms show ?thesis
      by (simp add: addToHistory_def Let_def last_n_def)
  next
    case pos: False
    with False have "?k < length tr" by simp
    then have "tl (drop ?k tr @ [e]) = drop (Suc ?k) tr @ [e]"
      by (simp add: drop_Suc tl_drop)
    moreover have "length (tr @ [e]) - ?m = Suc ?k"
      using False by simp
    ultimately show ?thesis
      using assms len False pos by (simp add: addToHistory_def Let_def last_n_def)
  qed
qed

lemma dial_registry:
  "fst (snd (dialPhoneNumber heap raw now s)) =
     (case validatePhoneNumber raw of
        Inl error \<Rightarrow> s
      | Inr n \<Rightarrow> if n \<in> phoneNumbers s
                 then addToHistory (PhoneEvent_new (js ''dial'') n now) s else s)"
  by (simp add: dialPhoneNumber_def Let_def split: sum.splits prod.splits promise.splits)

lemma step_max [simp]: "maxHistorySize (step c s) = maxHistorySize s"
  by (cases c)
    (simp_all add: addPhoneNumber_def removePhoneNumber_def dial_registry addObserver_def
      removeObserver_def Set_delete_def split: sum.splits)

lemma step_last_n:
  assumes "eventHistory s = last_n (maxHistorySize s) tr"
  shows "eventHistory (step c s) = last_n (maxHistorySize s) (tr @ appended c s)"
proof (cases c)
  case (AddPhoneNumber raw now)
  then show ?thesis
    using assms addToHistory_last_n [of "s\<lparr>phoneNumbers := insert n (phoneNumbers s)\<rparr>" tr for n]
    by (simp add: addPhoneNumber_def split: sum.splits)
next
  case (RemovePhoneNumber raw now)
  then show ?thesis
    using assms addToHistory_last_n [of "s\<lparr>phoneNumbers := phoneNumbers s - {n}\<rparr>" tr for n]
    by (simp add: removePhoneNumber_def split: sum.splits)
next
  case (DialPhoneNumber heap raw now)
  then show ?thesis
    using assms addToHistory_last_n [of s tr]
    by (simp add: dial_registry split: sum.splits)
next
  case (AddObserver heap observer now)
  then show ?thesis
    using assms addToHistory_last_n [of "s\<lparr>observers := Set_add observer (observers s)\<rparr>" tr]
    by (simp add: addObserver_def)
next
  case (RemoveObserver heap observer now)
  then show ?thesis
    using assms addToHistory_last_n [of "s\<lparr>observers := removeAll observer (observers s)\<rparr>" tr]
    by (simp add: removeObserver_def Set_delete_def)
next
  case (GetEventHistory flt)
  then show ?thesis using assms by simp
qed

lemma run_max [simp]: "maxHistorySize (run cs s) = maxHistorySize s"
  by (induction cs arbitrary: s) simp_all

lemma run_last_n:
  assumes "eventHistory s = last_n (maxHistorySize s) tr"
  shows "eventHistory (run cs s) = last_n (maxHistorySize s) (tr @ trace cs s)"
  using assms
proof (induction cs arbitrary: s tr)
  case Nil
  then show ?case by simp
next
  case (Cons c cs)
  have "eventHistory (step c s) = last_n (maxHistorySize (step c s)) (tr @ appended c s)"
    using step_last_n [OF Cons.prems] by simp
  from Cons.IH [OF this] show ?case by simp
qed

lemma length_last_n: "length (last_n n xs) = min n (length xs)"
  by (simp add: last_n_def)

lemma full_history_evicts:
  assumes "length (eventHistory s) = maxHistorySize s" and "0 < maxHistorySize s"
  shows "eventHistory (addToHistory e s) = tl (eventHistory s) @ [e]"
  using assms by (cases "eventHistory s") (auto simp: addToHistory_def Let_def)

lemma trace_AddObserver:
  "trace (replicate n (AddObserver heap observer now)) s =
     replicate n (PhoneEvent_new (js ''observerAdded'') (obs_id (heap observer)) now)"
  by (induction n arbitrary: s) simp_all

text \<open>
  C2. After every sequence of calls on a new registry the event history has at most 100
  entries, and it is the last 100 of all the events appended so far, in the order of their
  insertion (all of them while there are no more than 100). When the history is full, an
  append removes its first, oldest entry and nothing else.
\<close>

theorem history_bounded_fifo:
  "length (eventHistory (run cs (Telephone_new args))) \<le> 100 \<and>
   eventHistory (run cs (Telephone_new args)) = last_n 100 (trace cs (Telephone_new args)) \<and>
   (length (eventHistory (run cs (Telephone_new args))) = 100 \<longrightarrow>
      eventHistory (addToHistory event (run cs (Telephone_new args))) =
        tl (eventHistory (run cs (Telephone_new args))) @ [event])"
proof -
  let ?t = "Telephone_new args"
  have m: "maxHistorySize ?t = 100" by (simp add: Telephone_new_def)
  have "eventHistory ?t = last_n (maxHistorySize ?t) []"
    by (simp add: Telephone_new_def last_n_def)
  from run_last_n [OF this, of cs]
  have h: "eventHistory (run cs ?t) = last_n 100 (trace cs ?t)" by (simp add: m)
  then have "length (eventHistory (run cs ?t)) \<le> 100"
    by (simp add: length_last_n)
  moreover have "eventHistory (addToHistory event (run cs ?t)) =
      tl (eventHistory (run cs ?t)) @ [event]"
    if "length (eventHistory (run cs ?t)) = 100"
    using that full_history_evicts [of "run cs ?t" event] by (simp add: m)
  ultimately show ?thesis using h by blast
qed

theorem history_bounded_fifo_witness:
  "length (eventHistory (run (replicate 150 (AddObserver (\<lambda>r. rejecting_observer) 0 7))
             (Telephone_new []))) = 100 \<and>
   eventHistory (addToHistory (PhoneEvent_new (js ''add'') (js ''+12345678900'') 8)
      (run (replicate 150 (AddObserver (\<lambda>r. rejecting_observer) 0 7)) (Telephone_new []))) =
     tl (eventHistory (run (replicate 150 (AddObserver (\<lambda>r. rejecting_observer) 0 7))
           (Telephone_new []))) @
     [PhoneEvent_new (js ''add'') (js ''+12345678900'') 8]"
proof -
  let ?cs = "replicate 150 (AddObserver (\<lambda>r. rejecting_observer) 0 7)"
  note fifo = history_bounded_fifo [of ?cs "[]" "PhoneEvent_new (js ''add'') (js ''+12345678900'') 8"]
  have "length (eventHistory (run ?cs (Telephone_new []))) = 100"
    using fifo by (simp add: trace_AddObserver length_last_n)
  with fifo show ?thesis by simp
qed


section \<open>The constructor\<close>

text \<open>
  C9, as the code has it. The constructor of the registry takes no configuration
  parameter: whatever arguments it is called with, the registry it builds is the same and
  its history capacity is 100.
\<close>

theorem constructor_capacity:
  "maxHistorySize (Telephone_new args) = 100 \<and> Telephone_new args = Telephone_new []"
  by (simp add: Telephone_new_def)

text \<open>
  C9 as stated fails: a capacity passed to the constructor is not taken; called with 50,
  the registry still has the capacity 100.
\<close>

theorem constructor_override_counterexample:
  "maxHistorySize (Telephone_new [NumVal 50]) \<noteq> 50"
  by (simp add: Telephone_new_def)


section \<open>Invalid numbers\<close>

text \<open>
  C6, as the code has it. For every string that is not in the format, \<^verbatim>\<open>addPhoneNumber\<close>
  and \<^verbatim>\<open>removePhoneNumber\<close> throw the error with the message
  \<^verbatim>\<open>Invalid phone number format\<close> synchronously. \<^verbatim>\<open>dialPhoneNumber\<close> is \<^verbatim>\<open>async\<close> and does not
  throw: its call returns a promise that is already rejected with the same error, before
  any observer is notified. In all three the error reaches the caller, it is not swallowed,
  and the registry (numbers, observers, history) is as it was.
\<close>

theorem invalid_number_rejected:
  assumes "\<not> phone_format raw"
  shows "addPhoneNumber raw now this =
           (Inl (PhoneNumberError (js ''Invalid phone number format'')), this) \<and>
         removePhoneNumber raw now this =
           (Inl (PhoneNumberError (js ''Invalid phone number format'')), this) \<and>
         dialPhoneNumber heap raw now this =
           (Rejected 0 (PhoneNumberError (js ''Invalid phone number format'')), this, []) \<and>
         async_call (fst (dialPhoneNumber heap raw now this)) =
           Inr (Rejected 0 (PhoneNumberError (js ''Invalid phone number format'')))"
  using assms
  by (simp add: addPhoneNumber_def removePhoneNumber_def dialPhoneNumber_def validate_cases
      invalid_format_def PhoneNumberError_def async_call_def)

theorem invalid_number_rejected_witness:
  "\<not> phone_format (js ''invalid'') \<and>
   addPhoneNumber (js ''invalid'') 0 dialled_registry =
     (Inl (PhoneNumberError (js ''Invalid phone number format'')), dialled_registry) \<and>
   removePhoneNumber (js ''invalid'') 0 dialled_registry =
     (Inl (PhoneNumberError (js ''Invalid phone number format'')), dialled_registry) \<and>
   dialPhoneNumber (\<lambda>r. rejecting_observer) (js ''invalid'') 0 dialled_registry =
     (Rejected 0 (PhoneNumberError (js ''Invalid phone number format'')), dialled_registry, [])"
proof -
  have a: "\<not> phone_format (js ''invalid'')"
    by (simp add: phone_format_def phone_class_def char_simps)
  show ?thesis
    using a invalid_number_rejected [OF a] by simp
qed

text \<open>
  C6 as stated fails for \<^verbatim>\<open>dialPhoneNumber\<close>: called with \<^verbatim>\<open>'invalid'\<close>, it does not raise the
  error synchronously; the call returns, and the error is the reason of the returned
  promise.
\<close>

theorem dial_invalid_not_raised_counterexample:
  "\<not> phone_format (js ''invalid'') \<and>
   async_call (fst (dialPhoneNumber (\<lambda>r. rejecting_observer) (js ''invalid'') 0 dialled_registry)) \<noteq>
     Inl (PhoneNumberError (js ''Invalid phone number format'')) \<and>
   async_call (fst (dialPhoneNumber (\<lambda>r. rejecting_observer) (js ''invalid'') 0 dialled_registry)) =
     Inr (Rejected 0 (PhoneNumberError (js ''Invalid phone number format'')))"
  by (simp add: dialPhoneNumber_def validate_cases invalid_format_def PhoneNumberError_def
      async_call_def phone_format_def phone_class_def char_simps)


section \<open>Reading the history\<close>

lemma getEventHistory_effective:
  "getEventHistory flt this = filter (satisfies (effective flt)) (eventHistory this)"
  by (cases "filter_type flt"; cases "startDate flt"; cases "endDate flt")
     (auto simp: getEventHistory_def satisfies_def effective_def Let_def intro: filter_cong)

text \<open>With a type that is absent or not empty, every given option counts.\<close>

lemma getEventHistory_satisfies:
  "filter_type flt \<noteq> Some [] \<Longrightarrow>
     getEventHistory flt this = filter (satisfies flt) (eventHistory this)"
  by (simp add: getEventHistory_effective effective_def)

lemma validate_example:
  "validatePhoneNumber (js ''+1-234-567-8900'') = Inr (js ''+12345678900'')"
  "validatePhoneNumber (js ''+12345678900'') = Inr (js ''+12345678900'')"
  by (simp_all add: validate_cases phone_format_def phone_class_def strip_separators_def char_simps)

lemma dialled_registry_eq:
  "dialled_registry =
     \<lparr>phoneNumbers = {js ''+12345678900''}, observers = [0],
      eventHistory = [PhoneEvent_new (js ''add'') (js ''+12345678900'') 0,
                      PhoneEvent_new (js ''observerAdded'') (js ''obs1'') 1],
      maxHistorySize = 100\<rparr>"
  by (simp add: dialled_registry_def addObserver_def addPhoneNumber_def validate_example
      Telephone_new_def addToHistory_def Let_def Set_add_def rejecting_observer_def
      addCustomNotification_def PhoneNumberObserver_new_def)

lemma EventKind_not_empty: "t \<in> EventKind \<Longrightarrow> t \<noteq> []"
  by (auto simp: EventKind_def js_def)

lemma typed_filter_type: "typed_filter flt \<Longrightarrow> filter_type flt \<noteq> Some []"
  by (auto simp: typed_filter_def dest: EventKind_not_empty)

lemma run_append: "run (cs @ cs') s = run cs' (run cs s)"
  by (induction cs arbitrary: s) simp_all

text \<open>
  Outside the typed filters: given the empty string as type, the guard is falsy and the
  whole history is returned.
\<close>

lemma getEventHistory_empty_type:
  "getEventHistory \<lparr>filter_type = Some [], startDate = None, endDate = None\<rparr> this =
     eventHistory this"
  by (simp add: getEventHistory_def)

text \<open>
  C7. For every filter (the type, when given, an event kind; the dates \<^verbatim>\<open>Date\<close> objects),
  \<^verbatim>\<open>getEventHistory\<close> returns, in the order of the history (oldest first, after eviction),
  exactly the events that satisfy every option the filter gives: type equal to the
  filter's type, timestamp not before the start date, timestamp not after the end date; an
  option that is absent imposes no constraint. It does not change the registry: a sequence
  of calls leaves the same registry with the read in it as without.
\<close>

theorem getEventHistory_conjunction:
  assumes "typed_filter flt"
  shows "getEventHistory flt this = filter (satisfies flt) (eventHistory this) \<and>
         run (cs @ GetEventHistory flt # cs') this = run (cs @ cs') this"
  using typed_filter_type [OF assms]
  by (simp add: getEventHistory_satisfies run_append)

theorem getEventHistory_conjunction_witness:
  "typed_filter \<lparr>filter_type = Some (js ''add''), startDate = Some 0, endDate = Some 0\<rparr> \<and>
   getEventHistory \<lparr>filter_type = Some (js ''add''), startDate = Some 0, endDate = Some 0\<rparr>
     dialled_registry =
   [PhoneEvent_new (js ''add'') (js ''+12345678900'') 0]"
proof -
  have t: "typed_filter \<lparr>filter_type = Some (js ''add''), startDate = Some 0, endDate = Some 0\<rparr>"
    by (simp add: typed_filter_def EventKind_def)
  show ?thesis
    using t getEventHistory_conjunction [OF t, of dialled_registry "[]" "[]"]
    by (simp add: dialled_registry_eq satisfies_def PhoneEvent_new_def js_def)
qed


section \<open>Notification\<close>

lemma tags_distinct:
  "js ''simple'' \<noteq> js ''emergency''" "js ''detailed'' \<noteq> js ''emergency''"
  "js ''detailed'' \<noteq> js ''simple''" "js ''dial'' \<noteq> js ''emergency''"
  "js ''simple'' \<noteq> js ''dial''" "js ''detailed'' \<noteq> js ''dial''"
  by (simp_all add: js_def)

lemma notify_effects:
  "map fst (fst (notify this number eventType)) =
     (if js ''simple'' \<in> types this then [ConsoleLog number] else []) @
     (if js ''detailed'' \<in> types this
      then [ConsoleLog (js ''Now Dialing '' @ number @ js ''...'')] else []) @
     (if eventType \<in> dom (customHandlers this) then [HandlerCall eventType number] else [])"
  by (auto simp: notify_def Let_def split: option.splits)

text \<open>
  C4. For every observer, number and event type, \<^verbatim>\<open>notify\<close> runs the built-in \<^verbatim>\<open>simple\<close>
  action exactly when \<^verbatim>\<open>simple\<close> is among the observer's tags and the built-in \<^verbatim>\<open>detailed\<close>
  action exactly when \<^verbatim>\<open>detailed\<close> is, whatever the event type, and it runs a custom
  handler exactly when one is registered for that event type: the handler registered for
  it, applied to the number. An observer created with the tag \<^verbatim>\<open>simple\<close> and given a handler
  for \<^verbatim>\<open>emergency\<close> runs the simple action and that handler on \<^verbatim>\<open>notify(num, 'emergency')\<close>,
  whose promise follows the handler's result, and the simple action alone on
  \<^verbatim>\<open>notify(num, 'dial')\<close>.
\<close>

theorem notify_runs_selected:
  "fst (notify this number eventType) =
     (if js ''simple'' \<in> types this then [(ConsoleLog number, Inr Plain)] else []) @
     (if js ''detailed'' \<in> types this
      then [(ConsoleLog (js ''Now Dialing '' @ number @ js ''...''), Inr Plain)] else []) @
     (case customHandlers this eventType of
        None \<Rightarrow> []
      | Some handler \<Rightarrow> [(HandlerCall eventType number, handler number)]) \<and>
   notify (addCustomNotification (js ''emergency'') h (PhoneNumberObserver_new ident [js ''simple'']))
       number (js ''emergency'') =
     ([(ConsoleLog number, Inr Plain), (HandlerCall (js ''emergency'') number, h number)],
      case h number of
        Inl e \<Rightarrow> Rejected 0 e
      | Inr v \<Rightarrow> await_last (Promise_all [Fulfilled 0 (), Promise_resolve v])) \<and>
   notify (addCustomNotification (js ''emergency'') h (PhoneNumberObserver_new ident [js ''simple'']))
       number (js ''dial'') =
     ([(ConsoleLog number, Inr Plain)], Fulfilled 0 ())"
  using tags_distinct
  by (simp add: notify_def Let_def addCustomNotification_def PhoneNumberObserver_new_def
      split: sum.splits)

theorem notify_runs_selected_witness:
  "notify (addCustomNotification (js ''emergency'')
             (\<lambda>number. Inr (PromiseVal (Rejected 2 (StrVal number))))
             (PhoneNumberObserver_new (js ''obs1'') [js ''simple'']))
       (js ''112'') (js ''emergency'') =
     ([(ConsoleLog (js ''112''), Inr Plain),
       (HandlerCall (js ''emergency'') (js ''112''),
        Inr (PromiseVal (Rejected 2 (StrVal (js ''112'')))))],
      Rejected 2 (StrVal (js ''112''))) \<and>
   notify (addCustomNotification (js ''emergency'')
             (\<lambda>number. Inr (PromiseVal (Rejected 2 (StrVal number))))
             (PhoneNumberObserver_new (js ''obs1'') [js ''simple'']))
       (js ''112'') (js ''dial'') =
     ([(ConsoleLog (js ''112''), Inr Plain)], Fulfilled 0 ())"
  using notify_runs_selected
    [of busy_observer "js ''112''" "js ''dial''"
        "\<lambda>number. Inr (PromiseVal (Rejected 2 (StrVal number)))" "js ''obs1''"]
  by simp

text \<open>
  C5. For every observer and every call of \<^verbatim>\<open>notify\<close>, the promise of \<^verbatim>\<open>notify\<close> settles no
  earlier than any action it launched has completed, whether the action succeeded or
  failed; it is rejected with the first failure among the actions when one failed, and
  fulfilled when none did.
\<close>

theorem notify_waits_for_all:
  "list_all (\<lambda>a. completes_at (snd a) \<le> settles_at (snd (notify this number eventType)))
     (fst (notify this number eventType)) \<and>
   reason (snd (notify this number eventType)) =
     map_option snd (first_failure (fst (notify this number eventType)))"
proof (cases "customHandlers this eventType")
  case None
  then show ?thesis
    by (simp add: notify_def Let_def)
next
  case (Some handler)
  show ?thesis
  proof (cases "handler number")
    case (Inl e)
    with Some show ?thesis by (simp add: notify_def Let_def)
  next
    case (Inr v)
    show ?thesis
    proof (cases v)
      case Plain
      with Some Inr show ?thesis by (simp add: notify_def Let_def)
    next
      case (PromiseVal p)
      with Some Inr show ?thesis by (cases p) (simp_all add: notify_def Let_def)
    qed
  qed
qed

lemma notify_rejecting:
  "notify rejecting_observer n (js ''dial'') =
     ([(ConsoleLog n, Inr Plain),
       (HandlerCall (js ''dial'') n, Inr (PromiseVal (Rejected 0 Undefined)))],
      Rejected 0 Undefined)"
  by (simp add: notify_def rejecting_observer_def addCustomNotification_def
      PhoneNumberObserver_new_def Let_def js_def)

theorem notify_waits_for_all_witness:
  "list_all (\<lambda>a. completes_at (snd a) \<le> 3) (fst (notify busy_observer [] (js ''dial''))) \<and>
   length (fst (notify busy_observer [] (js ''dial''))) = 3 \<and>
   settles_at (snd (notify busy_observer [] (js ''dial''))) = 3 \<and>
   reason (snd (notify busy_observer [] (js ''dial''))) = Some (ErrorObj (js ''Error'') (js ''busy''))"
proof -
  have n: "notify busy_observer [] (js ''dial'') =
     ([(ConsoleLog [], Inr Plain),
       (ConsoleLog (js ''Now Dialing '' @ [] @ js ''...''), Inr Plain),
       (HandlerCall (js ''dial'') [],
        Inr (PromiseVal (Rejected 3 (ErrorObj (js ''Error'') (js ''busy'')))))],
      Rejected 3 (ErrorObj (js ''Error'') (js ''busy'')))"
    by (simp add: notify_def busy_observer_def addCustomNotification_def
        PhoneNumberObserver_new_def Let_def js_def)
  show ?thesis
    using notify_waits_for_all [of busy_observer "[]" "js ''dial''"]
    by (simp add: n)
qed


section \<open>Dialling\<close>

text \<open>A number that validation accepts and the registry does not know: nothing happens.\<close>

lemma dial_unknown:
  assumes "validatePhoneNumber raw = Inr n" and "n \<notin> phoneNumbers this"
  shows "dialPhoneNumber heap raw now this = (Fulfilled 0 False, this, [])"
  using assms by (simp add: dialPhoneNumber_def)

text \<open>
  A known number: one \<^verbatim>\<open>dial\<close> event is appended, and every registered observer is notified
  and has its failure looked at, whatever the other observers do.
\<close>

lemma dial_known_registry:
  assumes "validatePhoneNumber raw = Inr n" and "n \<in> phoneNumbers this"
  shows "fst (snd (dialPhoneNumber heap raw now this)) =
           addToHistory (PhoneEvent_new (js ''dial'') n now) this"
  using assms by (simp add: dial_registry)

lemma dial_known_reports:
  assumes "validatePhoneNumber raw = Inr n" and "n \<in> phoneNumbers this"
  shows "snd (snd (dialPhoneNumber heap raw now this)) =
           map (\<lambda>r. (r, fst (notify (heap r) n (js ''dial'')),
                      fst (catch_log (heap r) (snd (notify (heap r) n (js ''dial''))))))
             (observers this)"
  using assms
  by (simp add: dialPhoneNumber_def notifyObservers_def Let_def addToHistory_def
      split: prod.splits promise.splits)

lemma Promise_all_fulfilled: "list_all fulfilled ps \<Longrightarrow> fulfilled (Promise_all ps)"
  by (induction ps rule: Promise_all.induct) (auto split: promise.splits)

lemma catch_log_fulfilled: "caught p \<Longrightarrow> fulfilled (snd (catch_log ob p))"
  by (cases p; cases "case p of Rejected t e \<Rightarrow> e | _ \<Rightarrow> Undefined") auto

lemma fulfilled_await: "fulfilled p \<Longrightarrow> fulfilled (await_last p)"
  by (cases p) simp_all

text \<open>
  A known number, and no observer whose \<^verbatim>\<open>notify\<close> is rejected with \<^verbatim>\<open>undefined\<close> or
  \<^verbatim>\<open>null\<close>: the call returns \<^verbatim>\<open>true\<close>, whatever else the observers do.
\<close>

lemma dial_known_true:
  assumes "validatePhoneNumber raw = Inr n" and "n \<in> phoneNumbers this"
    and "list_all (\<lambda>r. caught (snd (notify (heap r) n (js ''dial'')))) (observers this)"
  shows "\<exists>t. fst (dialPhoneNumber heap raw now this) = Fulfilled t True"
proof -
  let ?this' = "addToHistory (PhoneEvent_new (js ''dial'') n now) this"
  have obs: "observers ?this' = observers this"
    by (simp add: addToHistory_def Let_def)
  have "list_all fulfilled
          (map (\<lambda>r. snd (catch_log (heap r) (snd (notify (heap r) n (js ''dial'')))))
             (observers this))"
    using assms(3) by (simp add: list_all_iff catch_log_fulfilled)
  then have "fulfilled (snd (notifyObservers heap n ?this'))"
    by (auto simp: notifyObservers_def Let_def obs comp_def split_def
        intro!: fulfilled_await Promise_all_fulfilled)
  then obtain t where "snd (notifyObservers heap n ?this') = Fulfilled t ()"
    by (cases "snd (notifyObservers heap n ?this')") auto
  then show ?thesis
    using assms(1,2) by (auto simp: dialPhoneNumber_def Let_def split: prod.splits)
qed

text \<open>
  C3 fails on the code. The number \<^verbatim>\<open>+12345678900\<close> is valid and known, and the one
  observer's handler for \<^verbatim>\<open>dial\<close> returns \<^verbatim>\<open>Promise.reject()\<close>. The \<^verbatim>\<open>catch\<close> callback of
  \<^verbatim>\<open>notifyObservers\<close> then reads \<^verbatim>\<open>error.message\<close> of \<^verbatim>\<open>undefined\<close> and throws a
  \<^verbatim>\<open>TypeError\<close>, which rejects the promise of \<^verbatim>\<open>dialPhoneNumber\<close>: the call fails instead of
  returning \<^verbatim>\<open>true\<close>.
\<close>

theorem dial_fails_on_nullish_rejection:
  "validatePhoneNumber (js ''+12345678900'') = Inr (js ''+12345678900'') \<and>
   js ''+12345678900'' \<in> phoneNumbers dialled_registry \<and>
   dialPhoneNumber (\<lambda>r. rejecting_observer) (js ''+12345678900'') 2 dialled_registry =
     (Rejected 0 TypeError,
      dialled_registry\<lparr>eventHistory := eventHistory dialled_registry @
         [PhoneEvent_new (js ''dial'') (js ''+12345678900'') 2]\<rparr>,
      [(0,
        [(ConsoleLog (js ''+12345678900''), Inr Plain),
         (HandlerCall (js ''dial'') (js ''+12345678900''),
          Inr (PromiseVal (Rejected 0 Undefined)))],
        [])])"
  by (simp add: validate_example dialled_registry_eq dialPhoneNumber_def addToHistory_def Let_def
      notifyObservers_def notify_rejecting)

end
